theory Spec2Isabelle
  imports Complex_Main "HOL-Library.Char_ord" "HOL-Library.List_Lexorder"
begin

section \<open>Strings of the Python program\<close>

text \<open>
  A Python \<open>str\<close> is modelled by a HOL \<open>string\<close>: one \<open>char\<close> stands for one
  character of the \<open>str\<close>, so \<open>length\<close> is Python's \<open>len\<close>, \<open>take n\<close> is the
  slice \<open>[:n]\<close> and \<open>@\<close> is \<open>+\<close>.  Every literal of the program is ASCII, and the
  case conversions below act on the ASCII letters and leave every other character
  as it is.  \<open>None\<close> is the value \<open>None\<close> of an option type.
\<close>

definition lower_char :: "char \<Rightarrow> char" where
  "lower_char c =
     (let n = (of_char c :: nat) in if 65 \<le> n \<and> n \<le> 90 then char_of (n + 32) else c)"

definition upper_char :: "char \<Rightarrow> char" where
  "upper_char c =
     (let n = (of_char c :: nat) in if 97 \<le> n \<and> n \<le> 122 then char_of (n - 32) else c)"

definition is_cased :: "char \<Rightarrow> bool" where
  "is_cased c =
     (let n = (of_char c :: nat) in (65 \<le> n \<and> n \<le> 90) \<or> (97 \<le> n \<and> n \<le> 122))"

definition lower :: "string \<Rightarrow> string" where
  "lower s = map lower_char s"

definition upper :: "string \<Rightarrow> string" where
  "upper s = map upper_char s"

text \<open>\<open>str.title\<close>: a cased character is upper-cased after an uncased one (or at the
  start) and lower-cased after a cased one.\<close>

fun title_from :: "bool \<Rightarrow> string \<Rightarrow> string" where
  "title_from previous_is_cased [] = []"
| "title_from previous_is_cased (c # s) =
     (if previous_is_cased then lower_char c else upper_char c) # title_from (is_cased c) s"

definition title :: "string \<Rightarrow> string" where
  "title s = title_from False s"

text \<open>Truthiness of an optional string: \<open>None\<close> and \<open>""\<close> are false.\<close>

fun truthy :: "string option \<Rightarrow> bool" where
  "truthy None = False"
| "truthy (Some s) = (s \<noteq> [])"

text \<open>\<open>sub in s\<close> on strings: \<open>sub\<close> occurs in \<open>s\<close> as a contiguous run.\<close>

fun is_prefix :: "string \<Rightarrow> string \<Rightarrow> bool" where
  "is_prefix [] s = True"
| "is_prefix (a # sub) [] = False"
| "is_prefix (a # sub) (b # s) = (a = b \<and> is_prefix sub s)"

fun contains :: "string \<Rightarrow> string \<Rightarrow> bool" where
  "contains sub [] = (sub = [])"
| "contains sub (c # s) = (is_prefix sub (c # s) \<or> contains sub s)"

section \<open>The standard library's \<open>os.path.splitext\<close> (POSIX flavour)\<close>

text \<open>
  \<^verbatim>\<open>
  def _splitext(p, sep, altsep, extsep):
      sepIndex = p.rfind(sep)
      dotIndex = p.rfind(extsep)
      if dotIndex > sepIndex:
          # skip all leading dots
          filenameIndex = sepIndex + 1
          while filenameIndex < dotIndex:
              if p[filenameIndex:filenameIndex+1] != extsep:
                  return p[:dotIndex], p[dotIndex:]
              filenameIndex += 1
      return p, p[:0]
  \<close>
  with \<open>sep = "/"\<close>, no \<open>altsep\<close> and \<open>extsep = "."\<close>.
\<close>

fun rfind_from :: "char \<Rightarrow> string \<Rightarrow> int \<Rightarrow> int \<Rightarrow> int" where
  "rfind_from c [] i found = found"
| "rfind_from c (x # s) i found = rfind_from c s (i + 1) (if x = c then i else found)"

definition rfind :: "char \<Rightarrow> string \<Rightarrow> int" where
  "rfind c s = rfind_from c s 0 (- 1)"

function splitext_loop :: "string \<Rightarrow> nat \<Rightarrow> nat \<Rightarrow> string \<times> string" where
  "splitext_loop p filenameIndex dotIndex =
     (if filenameIndex < dotIndex then
        (if take 1 (drop filenameIndex p) \<noteq> ''.'' then (take dotIndex p, drop dotIndex p)
         else splitext_loop p (filenameIndex + 1) dotIndex)
      else (p, []))"
  by pat_completeness auto
termination
  by (relation "measure (\<lambda>(p, filenameIndex, dotIndex). dotIndex - filenameIndex)") auto

declare splitext_loop.simps [simp del]

definition splitext :: "string \<Rightarrow> string \<times> string" where
  "splitext p =
     (let sepIndex = rfind (CHR ''/'') p; dotIndex = rfind (CHR ''.'') p in
      if dotIndex > sepIndex then splitext_loop p (nat (sepIndex + 1)) (nat dotIndex)
      else (p, []))"

section \<open>File classifier (\<open>simple_analysis.py\<close>, \<open>classify_file_type\<close>)\<close>

definition source_exts :: "string list" where
  "source_exts = [''.py'', ''.js'', ''.c'', ''.cpp'', ''.java'', ''.go'', ''.rs'', ''.php'']"

definition doc_exts :: "string list" where
  "doc_exts = [''.md'', ''.txt'', ''.rst'', ''.adoc'']"

definition config_exts :: "string list" where
  "config_exts = [''.json'', ''.yml'', ''.yaml'', ''.xml'', ''.toml'', ''.ini'', ''.cfg'']"

definition web_exts :: "string list" where
  "web_exts = [''.html'', ''.css'', ''.scss'']"

definition test_exts :: "string list" where
  "test_exts = [''test.py'', ''_test.py'']"

definition classify_file_type :: "string option \<Rightarrow> string" where
  "classify_file_type file_path =
     (if \<not> truthy file_path then ''Unknown''
      else let ext = lower (snd (splitext (the file_path))) in
        if ext \<in> set source_exts then ''Source''
        else if ext \<in> set doc_exts then ''Documentation''
        else if ext \<in> set config_exts then ''Config''
        else if ext \<in> set web_exts then ''Web''
        else if ext \<in> set test_exts \<or> contains ''test'' (the file_path) then ''Test''
        else ''Other'')"

definition categories :: "string list" where
  "categories =
     [''Source'', ''Documentation'', ''Config'', ''Web'', ''Test'', ''Other'', ''Unknown'']"

section \<open>Data model\<close>

text \<open>What the commit-mining library yields: a commit with its parents' hashes, its
  message, the checkout it belongs to and its modified files.\<close>

record modified_file =
  old_path :: "string option"
  new_path :: "string option"

record commit =
  hash :: string
  parents :: "string list"
  msg :: string
  project_path :: string
  modified_files :: "modified_file list"

text \<open>One row of the dataset: the dictionary appended to \<open>rows\<close> in \<open>main\<close>.\<close>

record comparison_record =
  repository :: string
  old_file_path :: "string option"
  new_file_path :: "string option"
  commit_sha :: string
  parent_commit_sha :: string
  commit_message :: string
  file_type :: string
  file_extension :: string
  diff_myers :: string
  diff_histogram :: string
  discrepancy :: string

section \<open>External collaborators\<close>

text \<open>
  The program reaches the outside through \<open>subprocess.check_output\<close> (the \<open>git\<close>
  executable, run in a working directory with an argument vector, giving an exit status
  and the captured output), \<open>bytes.decode("utf-8", errors="replace")\<close>,
  \<open>os.path.exists\<close> and the commit-mining library's \<open>traverse_commits\<close>.  They are
  the fields of one record that every function of the pipeline receives.
\<close>

type_synonym bytes = "nat list"

text \<open>What becomes of a process that \<open>subprocess\<close> is asked to run: it exits with a
  status and its captured output, or it cannot be started at all (the working directory
  or the executable does not exist), which \<open>subprocess\<close> reports as an \<open>OSError\<close>.\<close>

datatype process = Exit int bytes | Not_started

record collaborators =
  git :: "string \<Rightarrow> string list \<Rightarrow> process"
  utf8_decode :: "bytes \<Rightarrow> string"
  path_exists :: "string \<Rightarrow> bool"
  traverse_commits :: "string \<Rightarrow> commit list"

text \<open>The exceptions of the program.  \<open>CalledProcessError\<close> carries the exit status and
  the output.\<close>

datatype py_error =
  CalledProcessError int bytes | OSError
  | ZeroDivisionError | KeyError | EmptyDataError | ValueError

text \<open>\<open>subprocess.check_output\<close> returns the captured output of a process that exits
  with status 0, raises \<open>CalledProcessError\<close> on any other status, and raises
  \<open>OSError\<close> when the process cannot be started.\<close>

definition check_output :: "collaborators \<Rightarrow> string list \<Rightarrow> string \<Rightarrow> py_error + bytes" where
  "check_output w cmd cwd =
     (case git w cwd cmd of
        Exit returncode out \<Rightarrow>
          if returncode = 0 then Inr out else Inl (CalledProcessError returncode out)
      | Not_started \<Rightarrow> Inl OSError)"

text \<open>True division \<open>a / b\<close> of two Python integers.  The quotient, a float in the
  program, is modelled by the exact rational number.\<close>

definition py_div :: "nat \<Rightarrow> nat \<Rightarrow> py_error + rat" where
  "py_div a b = (if b = 0 then Inl ZeroDivisionError else Inr (of_nat a / of_nat b))"

section \<open>Diff invoker (\<open>simple_analysis.py\<close>, \<open>get_diff\<close>)\<close>

text \<open>The outcome of a call is the value returned (\<open>Inr\<close>) or the exception that leaves
  the function (\<open>Inl\<close>): the \<open>except\<close> clause catches \<open>CalledProcessError\<close> and
  nothing else.  The outcome is paired with the invocations of the external tool that
  the call made (working directory and argument vector), in order.\<close>

type_synonym invocation = "string \<times> string list"

definition diff_cmd :: "string \<Rightarrow> string \<Rightarrow> string \<Rightarrow> string \<Rightarrow> string list" where
  "diff_cmd algorithm parent child path =
     [''git'', ''diff'', ''-w'', ''--ignore-blank-lines'',
      ''--diff-algorithm='' @ algorithm, parent, child, ''--'', path]"

definition get_diff ::
  "collaborators \<Rightarrow> string \<Rightarrow> string option \<Rightarrow> string \<Rightarrow> string option \<Rightarrow> string \<Rightarrow>
   (py_error + string option) \<times> invocation list" where
  "get_diff w repo_dir parent child path algorithm =
     (if \<not> truthy parent \<or> \<not> truthy path then (Inr None, [])
      else
        let cmd = diff_cmd algorithm (the parent) child (the path) in
        (case check_output w cmd repo_dir of
           Inr result \<Rightarrow> Inr (Some (utf8_decode w result))
         | Inl (CalledProcessError returncode out) \<Rightarrow> Inr None
         | Inl e \<Rightarrow> Inl e,
         [(repo_dir, cmd)]))"

section \<open>Comparison engine (\<open>simple_analysis.py\<close>, the loops of \<open>main\<close>)\<close>

text \<open>
  The loops append to \<open>rows\<close>.  A loop body is a function of the rows reached so far
  that returns the rows after the iteration and the exception that left the iteration,
  if one did; an exception ends the loop, and every loop around it, with the rows
  reached.
\<close>

type_synonym traversal = "comparison_record list \<times> py_error option"

fun for_each :: "('a \<Rightarrow> 's \<Rightarrow> 's \<times> py_error option) \<Rightarrow> 'a list \<Rightarrow> 's \<Rightarrow> 's \<times> py_error option" where
  "for_each body [] s = (s, None)"
| "for_each body (x # xs) s =
     (case body x s of
        (s', None) \<Rightarrow> for_each body xs s'
      | (s', Some e) \<Rightarrow> (s', Some e))"

text \<open>\<open>file.new_path or file.old_path\<close>\<close>

definition effective_path :: "modified_file \<Rightarrow> string option" where
  "effective_path file = (if truthy (new_path file) then new_path file else old_path file)"

text \<open>\<open>parents[0] if parents else None\<close>\<close>

definition first_parent :: "commit \<Rightarrow> string option" where
  "first_parent c = (case parents c of [] \<Rightarrow> None | p # _ \<Rightarrow> Some p)"

text \<open>\<open>commit.msg[:100] + "..." if len(commit.msg) > 100 else commit.msg\<close>\<close>

definition truncated_msg :: "commit \<Rightarrow> string" where
  "truncated_msg c = (if length (msg c) > 100 then take 100 (msg c) @ ''...'' else msg c)"

text \<open>The body of the loop over \<open>commit.modified_files\<close>: a \<open>continue\<close> leaves the
  rows as they are.  The Histogram call is made only when the Myers call has
  returned.\<close>

definition process_file ::
  "collaborators \<Rightarrow> string \<Rightarrow> commit \<Rightarrow> string option \<Rightarrow> modified_file \<Rightarrow>
   comparison_record list \<Rightarrow> traversal" where
  "process_file w repo_name c parent file rows =
     (let path = effective_path file in
      if \<not> truthy path then (rows, None)
      else
        (case fst (get_diff w (project_path c) parent (hash c) path ''myers'') of
           Inl e \<Rightarrow> (rows, Some e)
         | Inr d_myers \<Rightarrow>
             (case fst (get_diff w (project_path c) parent (hash c) path ''histogram'') of
                Inl e \<Rightarrow> (rows, Some e)
              | Inr d_histogram \<Rightarrow>
                  if d_myers = None \<or> d_histogram = None then (rows, None)
                  else
                    let disc = (if d_myers \<noteq> d_histogram then ''Yes'' else ''No'') in
                    (rows @
                     [\<lparr>repository = repo_name,
                       old_file_path = old_path file,
                       new_file_path = new_path file,
                       commit_sha = hash c,
                       parent_commit_sha = the parent,
                       commit_message = truncated_msg c,
                       file_type = classify_file_type path,
                       file_extension =
                         (if truthy path then lower (snd (splitext (the path))) else []),
                       diff_myers = the d_myers,
                       diff_histogram = the d_histogram,
                       discrepancy = disc\<rparr>],
                     None))))"

text \<open>The body of the loop over the commits of one repository.\<close>

definition process_commit ::
  "collaborators \<Rightarrow> string \<Rightarrow> commit \<Rightarrow> comparison_record list \<Rightarrow> traversal" where
  "process_commit w repo_name c rows =
     (let parent = first_parent c in
      if \<not> truthy parent then (rows, None)
      else for_each (process_file w repo_name c parent) (modified_files c) rows)"

text \<open>The body of the loop over \<open>repositories\<close>; the commits are cut to the first 1000.\<close>

definition process_repository ::
  "collaborators \<Rightarrow> string \<times> string \<Rightarrow> comparison_record list \<Rightarrow> traversal" where
  "process_repository w repo rows =
     (case repo of (repo_name, repo_path) \<Rightarrow>
        if \<not> path_exists w repo_path then (rows, None)
        else
          let commits = take 1000 (traverse_commits w repo_path) in
          for_each (process_commit w repo_name) commits rows)"

text \<open>The three nested loops of \<open>main\<close>, from \<open>rows = []\<close>.\<close>

definition collect_rows :: "collaborators \<Rightarrow> (string \<times> string) list \<Rightarrow> traversal" where
  "collect_rows w repos = for_each (process_repository w) repos []"

definition repositories :: "(string \<times> string) list" where
  "repositories =
     [(''fastapi'', ''/home/set-iitgn-vm/STT_A4/fastapi''),
      (''nginx'', ''/home/set-iitgn-vm/STT_A4/nginx''),
      (''openhands'', ''/home/set-iitgn-vm/STT_A4/OpenHands'')]"

section \<open>Data frames\<close>

text \<open>
  A data frame is the list of its rows.  \<open>pd.read_csv('dataset.csv')\<close> raises
  \<open>FileNotFoundError\<close> when the file is absent and \<open>EmptyDataError\<close> when the file has
  no column to parse (a file of zero bytes); on a file with a header line it gives the
  frame of the rows that follow the header, which may be none.  The columns hold the
  strings that \<open>main\<close> writes: the repository names of its configuration and the
  category names, none of which \<open>read_csv\<close> takes for a missing value.
\<close>

datatype dataset_file = Absent | Blank | Table "comparison_record list"

text \<open>\<open>Series.unique()\<close>: the distinct values in order of first appearance.\<close>

fun unique :: "'a list \<Rightarrow> 'a list" where
  "unique [] = []"
| "unique (x # xs) = x # unique (filter (\<lambda>y. y \<noteq> x) xs)"

text \<open>The keys of \<open>groupby\<close>: the distinct values, sorted.\<close>

definition group_keys :: "(comparison_record \<Rightarrow> string) \<Rightarrow> comparison_record list \<Rightarrow> string list" where
  "group_keys column df = sort (remdups (map column df))"

text \<open>\<open>len(df[df['discrepancy'] == v])\<close>\<close>

definition count_discrepancy :: "string \<Rightarrow> comparison_record list \<Rightarrow> nat" where
  "count_discrepancy v df = length (filter (\<lambda>r. discrepancy r = v) df)"

section \<open>Console output\<close>

text \<open>A printed line is modelled by its fixed text and the values formatted into it.
  A function that prints returns the lines it printed and the exception that ended it,
  if one did.\<close>

datatype line =
  Text string
  | Count string nat
  | Percent string rat
  | Repo_line string nat nat rat
  | File_type_line string nat nat rat
  | Highest_rate string rat

type_synonym console = "line list \<times> py_error option"

section \<open>The report of \<open>main\<close> (\<open>simple_analysis.py\<close>)\<close>

text \<open>\<open>pd.DataFrame(rows)\<close> of an empty list has no columns, so that
  \<open>df['discrepancy']\<close> raises \<open>KeyError\<close>.\<close>

definition repo_breakdown :: "comparison_record list \<Rightarrow> string \<times> string \<Rightarrow> line list" where
  "repo_breakdown df repo =
     (case repo of (repo_name, repo_path) \<Rightarrow>
        let repo_df = filter (\<lambda>r. repository r = repo_name) df in
        if length repo_df > 0 then
          let disagreements = count_discrepancy ''Yes'' repo_df in
          [Repo_line repo_name disagreements (length repo_df)
             (of_nat disagreements / of_nat (length repo_df) * 100)]
        else [])"

definition main_report :: "comparison_record list \<Rightarrow> console" where
  "main_report df =
     (let printed =
        [Text (replicate 60 (CHR ''='')), Text ''ANALYSIS COMPLETE'',
         Text (replicate 60 (CHR ''='')), Count ''Total files analyzed'' (length df)]
      in
      if df = [] then (printed, Some KeyError)
      else
        let printed = printed @ [Count ''Algorithm disagreements'' (count_discrepancy ''Yes'' df)] in
        (case py_div (count_discrepancy ''No'' df) (length df) of
           Inl e \<Rightarrow> (printed, Some e)
         | Inr q \<Rightarrow>
             (printed @ [Percent ''Agreement rate'' (q * 100), Text ''Repository breakdown:''] @
              concat (map (repo_breakdown df) repositories) @
              [Text ''Dataset saved as dataset.csv''], None)))"

text \<open>\<open>main\<close>: the rows written to \<open>dataset.csv\<close>, when the file is written, and the
  console.  An exception of the traversal leaves \<open>main\<close> before the file is written.
  The progress messages of the traversal are not modelled.\<close>

definition main :: "collaborators \<Rightarrow> comparison_record list option \<times> console" where
  "main w =
     (case collect_rows w repositories of
        (rows, Some e) \<Rightarrow> (None, ([], Some e))
      | (rows, None) \<Rightarrow> (Some rows, main_report rows))"

section \<open>Summary (\<open>summary.py\<close>, \<open>display_summary\<close>)\<close>

text \<open>\<open>repo_stats\<close>: per repository, in the order of the sorted keys, the number of
  discrepancies, the number of rows and the rate.\<close>

definition repo_stats :: "comparison_record list \<Rightarrow> (string \<times> nat \<times> nat \<times> rat) list" where
  "repo_stats df =
     map (\<lambda>repo.
            let g = filter (\<lambda>r. repository r = repo) df;
                discrepancies = count_discrepancy ''Yes'' g;
                total_files = length g
            in (repo, discrepancies, total_files,
                of_nat discrepancies / of_nat total_files * 100))
         (group_keys repository df)"

text \<open>The loop over \<open>file_type_totals.index\<close>.\<close>

definition file_type_line :: "comparison_record list \<Rightarrow> string \<Rightarrow> line" where
  "file_type_line df ft =
     (let discrepancies =
            length (filter (\<lambda>r. file_type r = ft) (filter (\<lambda>r. discrepancy r = ''Yes'') df));
          total_n = length (filter (\<lambda>r. file_type r = ft) df);
          rate = (if total_n > 0 then of_nat discrepancies / of_nat total_n * 100 else 0)
      in File_type_line (title ft) discrepancies total_n rate)"

text \<open>\<open>Series.idxmax()\<close>: the label of the first maximum; \<open>ValueError\<close> on an empty
  series.\<close>

fun idxmax :: "(string \<times> rat) list \<Rightarrow> py_error + string" where
  "idxmax [] = Inl ValueError"
| "idxmax (x # xs) =
     Inr (fst (fold (\<lambda>y best. if snd y > snd best then y else best) xs x))"

definition summary_of :: "comparison_record list \<Rightarrow> console" where
  "summary_of df =
     (let printed =
            [Text (replicate 60 (CHR ''='')), Text ''DIFF ALGORITHM ANALYSIS SUMMARY'',
             Text (replicate 60 (CHR ''=''))];
          total_files = length df;
          total_discrepancies = count_discrepancy ''Yes'' df
      in
      (case py_div total_discrepancies total_files of
         Inl e \<Rightarrow> (printed, Some e)
       | Inr q \<Rightarrow>
           let discrepancy_rate = q * 100;
               printed = printed @
                 [Text ''OVERALL RESULTS:'',
                  Count ''Total file modifications analyzed'' total_files,
                  Count ''Total discrepancies found'' total_discrepancies,
                  Percent ''Overall discrepancy rate'' discrepancy_rate,
                  Text ''REPOSITORY BREAKDOWN:''] @
                 map (\<lambda>(repo, discrepancies, total_n, rate).
                        Repo_line repo discrepancies total_n rate) (repo_stats df) @
                 [Text ''FILE TYPE ANALYSIS:''] @
                 map (file_type_line df) (group_keys file_type df) @
                 [Text ''KEY INSIGHTS:'',
                  Count ''Source code files had the most discrepancies''
                    (length (filter (\<lambda>r. file_type r = ''Source'')
                               (filter (\<lambda>r. discrepancy r = ''Yes'') df)))]
           in
           (case idxmax (map (\<lambda>(repo, discrepancies, total_n, rate). (repo, rate))
                           (repo_stats df)) of
              Inl e \<Rightarrow> (printed, Some e)
            | Inr max_rate_repo \<Rightarrow>
                let max_rate =
                      the (map_of (map (\<lambda>(repo, discrepancies, total_n, rate). (repo, rate))
                                     (repo_stats df)) max_rate_repo);
                    doc_discrepancies =
                      length (filter (\<lambda>r. file_type r = ''Documentation'')
                                (filter (\<lambda>r. discrepancy r = ''Yes'') df))
                in
                (printed @
                 [Highest_rate (title max_rate_repo) max_rate,
                  (if doc_discrepancies = 0
                   then Text ''Documentation files showed perfect agreement between algorithms''
                   else Count ''Documentation files had discrepancies'' doc_discrepancies),
                  Text ''Analysis processed up to 1000 commits per repository'',
                  Text ''ANALYSIS COMPLETE!'', Text (replicate 60 (CHR ''=''))],
                 None))))"

definition display_summary :: "dataset_file \<Rightarrow> console" where
  "display_summary file =
     (case file of
        Absent \<Rightarrow>
          ([Text ''Error: dataset.csv not found'', Text ''Please run diff_analysis.py first''],
           None)
      | Blank \<Rightarrow> ([], Some EmptyDataError)
      | Table df \<Rightarrow> summary_of df)"

section \<open>Chart statistics (\<open>visualization.py\<close>)\<close>

text \<open>The numbers behind the panels; the drawing itself is not modelled.\<close>

definition overall_percentages :: "comparison_record list \<Rightarrow> rat \<times> rat" where
  "overall_percentages df =
     (let agreement_count = count_discrepancy ''No'' df;
          disagreement_count = count_discrepancy ''Yes'' df;
          total_n = agreement_count + disagreement_count;
          agreement_pct =
            (if total_n > 0 then of_nat agreement_count / of_nat total_n * 100 else 0);
          disagreement_pct =
            (if total_n > 0 then of_nat disagreement_count / of_nat total_n * 100 else 0)
      in (agreement_pct, disagreement_pct))"

record stat =
  label :: string
  rate :: rat
  total :: nat
  disagreements :: nat

definition repo_data :: "comparison_record list \<Rightarrow> stat list" where
  "repo_data df =
     fold (\<lambda>repo acc.
             let repo_df = filter (\<lambda>r. repository r = repo) df;
                 total_n = length repo_df;
                 disagreements_n = count_discrepancy ''Yes'' repo_df;
                 rate_n = (if total_n > 0 then of_nat disagreements_n / of_nat total_n * 100 else 0)
             in acc @ [\<lparr>label = upper repo, rate = rate_n, total = total_n,
                         disagreements = disagreements_n\<rparr>])
          (sort (unique (map repository df))) []"

text \<open>The body of the loop over \<open>df['file_type'].unique()\<close>.\<close>

definition file_type_step :: "comparison_record list \<Rightarrow> string \<Rightarrow> stat list \<Rightarrow> stat list" where
  "file_type_step df ft file_type_stats =
     (let ft_df = filter (\<lambda>r. file_type r = ft) df;
          total_n = length ft_df;
          disagreements_n = count_discrepancy ''Yes'' ft_df;
          rate_n = (if total_n > 0 then of_nat disagreements_n / of_nat total_n * 100 else 0)
      in
      if total_n \<ge> 10 then
        file_type_stats @
        [\<lparr>label = upper ft, rate = rate_n, total = total_n, disagreements = disagreements_n\<rparr>]
      else file_type_stats)"

definition file_type_stats :: "comparison_record list \<Rightarrow> stat list" where
  "file_type_stats df = fold (file_type_step df) (unique (map file_type df)) []"

definition overall_rates :: "comparison_record list \<Rightarrow> rat \<times> rat" where
  "overall_rates df =
     (let total_files = length df;
          total_disagreements = count_discrepancy ''Yes'' df;
          overall_agreement_rate =
            (if total_files > 0
             then of_nat (total_files - total_disagreements) / of_nat total_files * 100 else 0);
          overall_disagreement_rate =
            (if total_files > 0
             then of_nat total_disagreements / of_nat total_files * 100 else 0)
      in (overall_agreement_rate, overall_disagreement_rate))"

section \<open>An example history\<close>

text \<open>
  One repository with two commits.  The root commit has no parent.  The second commit
  has a message of 150 characters and four modified files: \<open>src/main.py\<close>, on which
  both algorithms print the same text; \<open>README.md\<close>, on which they print different
  texts; a file with neither path; and \<open>gone.txt\<close>, on which the histogram run exits
  with status 128.  No process can be started in a directory other than \<open>/repo\<close>.
\<close>

definition example_files :: "modified_file list" where
  "example_files =
     [\<lparr>old_path = Some ''src/main.py'', new_path = Some ''src/main.py''\<rparr>,
      \<lparr>old_path = None, new_path = Some ''README.md''\<rparr>,
      \<lparr>old_path = None, new_path = None\<rparr>,
      \<lparr>old_path = Some ''gone.txt'', new_path = None\<rparr>]"

definition example_root :: commit where
  "example_root =
     \<lparr>hash = ''R'', parents = [], msg = ''initial commit'', project_path = ''/repo'',
      modified_files = example_files\<rparr>"

definition example_commit :: commit where
  "example_commit =
     \<lparr>hash = ''C'', parents = [''P''], msg = replicate 150 (CHR ''m''),
      project_path = ''/repo'', modified_files = example_files\<rparr>"

definition example_git :: "string \<Rightarrow> string list \<Rightarrow> process" where
  "example_git cwd cmd =
     (if cwd \<noteq> ''/repo'' then Not_started
      else if ''gone.txt'' \<in> set cmd \<and> ''--diff-algorithm=histogram'' \<in> set cmd
      then Exit 128 []
      else if ''README.md'' \<in> set cmd \<and> ''--diff-algorithm=histogram'' \<in> set cmd
      then Exit 0 [45, 120]
      else Exit 0 [43, 120])"

definition example_world :: collaborators where
  "example_world =
     \<lparr>git = example_git, utf8_decode = map char_of, path_exists = (\<lambda>p. p = ''/repo''),
      traverse_commits = (\<lambda>p. [example_root, example_commit])\<rparr>"

text \<open>A later commit with a short message and one modified file.\<close>

definition example_short :: commit where
  "example_short =
     \<lparr>hash = ''D'', parents = [''C''], msg = ''fix typo'', project_path = ''/repo'',
      modified_files = take 1 example_files\<rparr>"

text \<open>A dataset of thirteen rows: twelve of type \<open>Source\<close> on which the algorithms
  agree, and one of type \<open>Documentation\<close> on which they disagree.\<close>

definition example_row :: "string \<Rightarrow> string \<Rightarrow> comparison_record" where
  "example_row ft disc =
     \<lparr>repository = ''demo'', old_file_path = None, new_file_path = Some ''f'',
      commit_sha = ''C'', parent_commit_sha = ''P'', commit_message = ''m'',
      file_type = ft, file_extension = [], diff_myers = ''+x'', diff_histogram = ''+x'',
      discrepancy = disc\<rparr>"

definition example_dataset :: "comparison_record list" where
  "example_dataset =
     replicate 12 (example_row ''Source'' ''No'') @ [example_row ''Documentation'' ''Yes'']"

section \<open>Properties of rows\<close>

text \<open>The discrepancy flag of a row agrees with the two diff texts of the row.\<close>

definition consistent :: "comparison_record \<Rightarrow> bool" where
  "consistent r \<longleftrightarrow>
     (discrepancy r = ''Yes'' \<longleftrightarrow> diff_myers r \<noteq> diff_histogram r) \<and>
     (discrepancy r = ''No'' \<longleftrightarrow> diff_myers r = diff_histogram r)"

text \<open>The second list extends the first by rows that carry the truncated message of
  the commit.\<close>

definition appends_truncated :: "commit \<Rightarrow> comparison_record list \<Rightarrow> comparison_record list \<Rightarrow> bool" where
  "appends_truncated c rows rows' \<longleftrightarrow>
     (\<exists>new. rows' = rows @ new \<and> (\<forall>r \<in> set new. commit_message r = truncated_msg c))"

section \<open>Facts about strings and \<open>splitext\<close>\<close>

lemma is_prefix_iff: "is_prefix sub s \<longleftrightarrow> (\<exists>ss. s = sub @ ss)"
  by (induction sub s rule: is_prefix.induct) auto

lemma contains_iff: "contains sub s \<longleftrightarrow> (\<exists>ps ss. s = ps @ sub @ ss)"
proof (induction s)
  case Nil
  then show ?case by auto
next
  case (Cons c s)
  show ?case
  proof
    assume "contains sub (c # s)"
    then consider "is_prefix sub (c # s)" | "contains sub s" by auto
    then show "\<exists>ps ss. c # s = ps @ sub @ ss"
    proof cases
      case 1
      then obtain ss where "c # s = sub @ ss" by (auto simp: is_prefix_iff)
      then have "c # s = [] @ sub @ ss" by simp
      then show ?thesis by blast
    next
      case 2
      then obtain ps ss where "s = ps @ sub @ ss" using Cons.IH by auto
      then have "c # s = (c # ps) @ sub @ ss" by simp
      then show ?thesis by blast
    qed
  next
    assume "\<exists>ps ss. c # s = ps @ sub @ ss"
    then obtain ps ss where eq: "c # s = ps @ sub @ ss" by auto
    show "contains sub (c # s)"
    proof (cases ps)
      case Nil
      then have "is_prefix sub (c # s)" using eq by (auto simp: is_prefix_iff)
      then show ?thesis by simp
    next
      case (Cons a ps')
      then have "s = ps' @ sub @ ss" using eq by simp
      then have "contains sub s" using Cons.IH by blast
      then show ?thesis by simp
    qed
  qed
qed

lemma contains_nonempty: "contains sub s \<Longrightarrow> sub \<noteq> [] \<Longrightarrow> s \<noteq> []"
  by (cases s) auto

lemma rfind_from_cases:
  "rfind_from c s i found = found \<or>
   (i \<le> rfind_from c s i found \<and> rfind_from c s i found < i + int (length s) \<and>
    s ! nat (rfind_from c s i found - i) = c)"
proof (induction s arbitrary: i found)
  case Nil
  then show ?case by simp
next
  case (Cons x s)
  let ?f = "if x = c then i else found"
  let ?r = "rfind_from c s (i + 1) ?f"
  have r: "rfind_from c (x # s) i found = ?r" by simp
  from Cons.IH [of "i + 1" ?f]
  consider (keep) "?r = ?f"
    | (later) "i + 1 \<le> ?r" "?r < i + 1 + int (length s)" "s ! nat (?r - (i + 1)) = c"
    by blast
  then show ?case
  proof cases
    case keep
    then show ?thesis by (cases "x = c") auto
  next
    case later
    have "nat (?r - i) = Suc (nat (?r - (i + 1)))" using later(1) by linarith
    then have "(x # s) ! nat (?r - i) = c" using later(3) by simp
    then show ?thesis using later(1,2) unfolding r by auto
  qed
qed

lemma rfind_cases:
  "rfind c s = - 1 \<or> (0 \<le> rfind c s \<and> nat (rfind c s) < length s \<and> s ! nat (rfind c s) = c)"
  using rfind_from_cases [of c s 0 "- 1"] unfolding rfind_def by auto

lemma rfind_ge: "- 1 \<le> rfind c s"
  using rfind_cases [of c s] by auto

lemma splitext_loop_snd:
  "snd (splitext_loop p i d) = [] \<or> snd (splitext_loop p i d) = drop d p"
proof (induction p i d rule: splitext_loop.induct)
  case (1 p i d)
  show ?case
  proof (cases "i < d \<and> \<not> take 1 (drop i p) \<noteq> ''.''")
    case True
    then have "splitext_loop p i d = splitext_loop p (i + 1) d"
      by (subst splitext_loop.simps) simp
    then show ?thesis using 1 True by simp
  next
    case False
    then show ?thesis by (subst (1 2) splitext_loop.simps) auto
  qed
qed

lemma splitext_ext_dot:
  "snd (splitext p) = [] \<or> (\<exists>rest. snd (splitext p) = CHR ''.'' # rest)"
proof (cases "rfind (CHR ''/'') p < rfind (CHR ''.'') p")
  case False
  then show ?thesis by (simp add: splitext_def)
next
  case True
  let ?d = "nat (rfind (CHR ''.'') p)"
  have "- 1 \<le> rfind (CHR ''/'') p" by (rule rfind_ge)
  with True have "rfind (CHR ''.'') p \<noteq> - 1" by linarith
  then have lt: "?d < length p" and at: "p ! ?d = CHR ''.''"
    using rfind_cases [of "CHR ''.''" p] by auto
  have "drop ?d p = CHR ''.'' # drop (Suc ?d) p"
    using lt at by (metis Cons_nth_drop_Suc)
  moreover have "snd (splitext p) = [] \<or> snd (splitext p) = drop ?d p"
    using True splitext_loop_snd [of p "nat (rfind (CHR ''/'') p + 1)" ?d]
    by (simp add: splitext_def)
  ultimately show ?thesis by auto
qed

lemma lower_char_dot: "lower_char (CHR ''.'') = CHR ''.''"
  by (simp add: lower_char_def)

lemma lower_ext_dot:
  "lower (snd (splitext p)) = [] \<or> (\<exists>rest. lower (snd (splitext p)) = CHR ''.'' # rest)"
  using splitext_ext_dot [of p] by (auto simp: lower_def lower_char_dot)

lemma ext_not_test: "lower (snd (splitext p)) \<notin> set test_exts"
  using lower_ext_dot [of p] by (auto simp: test_exts_def)

section \<open>File classifier\<close>

text \<open>
  C4.  \<open>classify_file_type\<close> returns one of the seven category names on every
  argument, a path or \<open>None\<close>; on \<open>None\<close> and on the empty path it returns
  \<open>Unknown\<close>.  The function has no failing branch.
\<close>

theorem classify_file_type_total:
  "classify_file_type file_path \<in> set categories \<and>
   classify_file_type None = ''Unknown'' \<and> classify_file_type (Some []) = ''Unknown''"
  by (simp add: classify_file_type_def categories_def Let_def)

theorem classify_file_type_total_witness:
  "classify_file_type (Some ''README.md'') = ''Documentation'' \<and>
   classify_file_type (Some ''README.md'') \<in> set categories"
proof -
  have "classify_file_type (Some ''README.md'') = ''Documentation''" by code_simp
  then show ?thesis using classify_file_type_total [of "Some ''README.md''"] by simp
qed

text \<open>
  C5.  A path whose lower-cased extension is one of the source-code extensions is
  classified as \<open>Source\<close>, whatever else the path contains: the extension checks
  come before the check for the substring \<open>test\<close>.
\<close>

theorem source_extension_wins:
  "lower (snd (splitext p)) \<in> set source_exts \<Longrightarrow> classify_file_type (Some p) = ''Source''"
proof -
  assume ext: "lower (snd (splitext p)) \<in> set source_exts"
  have "p \<noteq> []"
  proof
    assume "p = []"
    then have "lower (snd (splitext p)) = []" by (simp add: splitext_def rfind_def lower_def)
    with ext show False by (simp add: source_exts_def)
  qed
  with ext show ?thesis by (simp add: classify_file_type_def Let_def)
qed

theorem source_extension_wins_witness:
  "contains ''test'' ''test_foo.py'' \<and> lower (snd (splitext ''test_foo.py'')) \<in> set source_exts \<and>
   classify_file_type (Some ''test_foo.py'') = ''Source''"
proof -
  have c: "contains ''test'' ''test_foo.py''" by code_simp
  have h: "lower (snd (splitext ''test_foo.py'')) \<in> set source_exts" by code_simp
  from c h source_extension_wins [OF h] show ?thesis by simp
qed

text \<open>
  C10.  The \<open>Test\<close> branch is reachable: a path that contains \<open>test\<close> and whose
  lower-cased extension is in none of the source, documentation, config and web sets is
  classified as \<open>Test\<close>.  The extension itself is never \<open>test.py\<close> or
  \<open>_test.py\<close>, since an extension of \<open>splitext\<close> is empty or begins with a dot.
\<close>

theorem test_branch_reachable:
  "(contains ''test'' p \<and>
    lower (snd (splitext p)) \<notin> set (source_exts @ doc_exts @ config_exts @ web_exts)
    \<longrightarrow> classify_file_type (Some p) = ''Test'') \<and>
   lower (snd (splitext p)) \<notin> set test_exts"
proof
  show "contains ''test'' p \<and>
    lower (snd (splitext p)) \<notin> set (source_exts @ doc_exts @ config_exts @ web_exts)
    \<longrightarrow> classify_file_type (Some p) = ''Test''"
  proof
    assume a: "contains ''test'' p \<and>
      lower (snd (splitext p)) \<notin> set (source_exts @ doc_exts @ config_exts @ web_exts)"
    then have "p \<noteq> []" using contains_nonempty [of "''test''" p] by auto
    with a show "classify_file_type (Some p) = ''Test''"
      by (simp add: classify_file_type_def Let_def)
  qed
  show "lower (snd (splitext p)) \<notin> set test_exts" by (rule ext_not_test)
qed

theorem test_branch_reachable_witness:
  "contains ''test'' ''tests/data.dat'' \<and>
   lower (snd (splitext ''tests/data.dat'')) \<notin> set (source_exts @ doc_exts @ config_exts @ web_exts) \<and>
   classify_file_type (Some ''tests/data.dat'') = ''Test'' \<and>
   lower (snd (splitext ''tests/data.dat'')) \<notin> set test_exts"
proof -
  have c: "contains ''test'' ''tests/data.dat''" by code_simp
  have h: "lower (snd (splitext ''tests/data.dat'')) \<notin> set (source_exts @ doc_exts @ config_exts @ web_exts)"
    by code_simp
  from c h test_branch_reachable [of "''tests/data.dat''"] show ?thesis by blast
qed

section \<open>Diff invoker\<close>

text \<open>
  C7.  \<open>get_diff\<close> returns \<open>None\<close> and invokes nothing when the parent or the path
  is missing (\<open>None\<close> or empty, the test the code makes).  Otherwise it invokes the
  tool once.  When the process exits, \<open>get_diff\<close> returns \<open>None\<close> on a status other
  than zero and the decoded output on status zero.  When the process cannot be started,
  the \<open>OSError\<close> is not caught and leaves \<open>get_diff\<close>, which then returns neither
  \<open>None\<close> nor a text.
\<close>

theorem get_diff_outcomes:
  "(\<not> truthy parent \<or> \<not> truthy path \<longrightarrow>
      get_diff w repo_dir parent child path algorithm = (Inr None, [])) \<and>
   (truthy parent \<and> truthy path \<and>
    git w repo_dir (diff_cmd algorithm (the parent) child (the path)) = Exit returncode out \<longrightarrow>
      get_diff w repo_dir parent child path algorithm =
        (Inr (if returncode = 0 then Some (utf8_decode w out) else None),
         [(repo_dir, diff_cmd algorithm (the parent) child (the path))])) \<and>
   (truthy parent \<and> truthy path \<and>
    git w repo_dir (diff_cmd algorithm (the parent) child (the path)) = Not_started \<longrightarrow>
      get_diff w repo_dir parent child path algorithm =
        (Inl OSError, [(repo_dir, diff_cmd algorithm (the parent) child (the path))]))"
  by (simp add: get_diff_def check_output_def Let_def)

theorem get_diff_outcomes_witness:
  "get_diff example_world ''/missing'' (Some ''P'') ''C'' (Some ''src/main.py'') ''myers'' =
     (Inl OSError, [(''/missing'', diff_cmd ''myers'' ''P'' ''C'' ''src/main.py'')]) \<and>
   get_diff example_world ''/repo'' None ''C'' (Some ''gone.txt'') ''histogram'' = (Inr None, []) \<and>
   get_diff example_world ''/repo'' (Some ''P'') ''C'' None ''histogram'' = (Inr None, []) \<and>
   get_diff example_world ''/repo'' (Some ''P'') ''C'' (Some ''gone.txt'') ''histogram'' =
     (Inr None, [(''/repo'', diff_cmd ''histogram'' ''P'' ''C'' ''gone.txt'')]) \<and>
   get_diff example_world ''/repo'' (Some ''P'') ''C'' (Some ''gone.txt'') ''myers'' =
     (Inr (Some ''+x''), [(''/repo'', diff_cmd ''myers'' ''P'' ''C'' ''gone.txt'')])"
proof -
  have g0: "git example_world ''/missing'' (diff_cmd ''myers'' ''P'' ''C'' ''src/main.py'') =
      Not_started"
    by code_simp
  have g1: "git example_world ''/repo'' (diff_cmd ''histogram'' ''P'' ''C'' ''gone.txt'') =
      Exit 128 []"
    by code_simp
  have g2: "git example_world ''/repo'' (diff_cmd ''myers'' ''P'' ''C'' ''gone.txt'') =
      Exit 0 [43, 120]"
    by code_simp
  have d: "utf8_decode example_world [43, 120] = ''+x''"
    by code_simp
  show ?thesis
    using get_diff_outcomes [where parent = "Some ''P''" and path = "Some ''src/main.py''"
        and w = example_world and repo_dir = "''/missing''" and algorithm = "''myers''"
        and child = "''C''"]
      get_diff_outcomes [where parent = None and path = "Some ''gone.txt''" and w = example_world
        and repo_dir = "''/repo''" and algorithm = "''histogram''" and child = "''C''"]
      get_diff_outcomes [where parent = "Some ''P''" and path = None and w = example_world
        and repo_dir = "''/repo''" and algorithm = "''histogram''" and child = "''C''"]
      get_diff_outcomes [where parent = "Some ''P''" and path = "Some ''gone.txt''"
        and w = example_world and repo_dir = "''/repo''" and algorithm = "''histogram''"
        and child = "''C''" and returncode = 128 and out = "[]"]
      get_diff_outcomes [where parent = "Some ''P''" and path = "Some ''gone.txt''"
        and w = example_world and repo_dir = "''/repo''" and algorithm = "''myers''"
        and child = "''C''" and returncode = 0 and out = "[43, 120]"]
      g0 g1 g2 d
    by simp
qed

section \<open>Comparison engine\<close>

lemma for_each_invariant:
  assumes "\<And>x s. x \<in> set xs \<Longrightarrow> I s \<Longrightarrow> I (fst (body x s))" and "I s"
  shows "I (fst (for_each body xs s))"
  using assms
proof (induction xs arbitrary: s)
  case Nil
  then show ?case by simp
next
  case (Cons x xs)
  have step: "I (fst (body x s))" using Cons.prems by simp
  show ?case
  proof (cases "body x s")
    case (Pair s' r)
    with step have s': "I s'" by simp
    show ?thesis
    proof (cases r)
      case None
      have "I (fst (for_each body xs s'))"
        using Cons.IH [of s'] Cons.prems(1) s' by simp
      with Pair None show ?thesis by simp
    next
      case (Some e)
      with Pair s' show ?thesis by simp
    qed
  qed
qed

lemma process_file_consistent:
  "list_all consistent rows \<Longrightarrow>
   list_all consistent (fst (process_file w repo_name c parent f rows))"
  by (auto simp: process_file_def Let_def consistent_def split: sum.splits)

lemma process_commit_consistent:
  "list_all consistent rows \<Longrightarrow> list_all consistent (fst (process_commit w repo_name c rows))"
  unfolding process_commit_def Let_def
  by (auto intro: for_each_invariant process_file_consistent)

lemma process_repository_consistent:
  "list_all consistent rows \<Longrightarrow> list_all consistent (fst (process_repository w repo rows))"
  unfolding process_repository_def Let_def
  by (auto split: prod.splits intro: for_each_invariant process_commit_consistent)

lemma collect_rows_consistent: "list_all consistent (fst (collect_rows w repos))"
  unfolding collect_rows_def
  by (rule for_each_invariant) (auto intro: process_repository_consistent)

lemma example_rows:
  "collect_rows example_world [(''demo'', ''/repo''), (''none'', ''/missing'')] =
     ([\<lparr>repository = ''demo'', old_file_path = Some ''src/main.py'',
       new_file_path = Some ''src/main.py'', commit_sha = ''C'', parent_commit_sha = ''P'',
       commit_message = replicate 100 (CHR ''m'') @ ''...'',
       file_type = ''Source'', file_extension = ''.py'', diff_myers = ''+x'',
       diff_histogram = ''+x'', discrepancy = ''No''\<rparr>,
      \<lparr>repository = ''demo'', old_file_path = None,
       new_file_path = Some ''README.md'', commit_sha = ''C'', parent_commit_sha = ''P'',
       commit_message = replicate 100 (CHR ''m'') @ ''...'',
       file_type = ''Documentation'', file_extension = ''.md'',
       diff_myers = ''+x'', diff_histogram = ''-x'', discrepancy = ''Yes''\<rparr>], None)"
  by code_simp

text \<open>
  C1.  In every row that the traversal emits, the discrepancy field is \<open>Yes\<close> exactly
  when the two diff texts of the row differ as strings, and \<open>No\<close> exactly when they
  are equal.
\<close>

theorem discrepancy_consistency:
  "\<forall>r \<in> set (fst (collect_rows w repos)).
     (discrepancy r = ''Yes'' \<longleftrightarrow> diff_myers r \<noteq> diff_histogram r) \<and>
     (discrepancy r = ''No'' \<longleftrightarrow> diff_myers r = diff_histogram r)"
  using collect_rows_consistent [of w repos] by (simp add: list_all_iff consistent_def)

theorem discrepancy_consistency_witness:
  "snd (collect_rows example_world [(''demo'', ''/repo''), (''none'', ''/missing'')]) = None \<and>
   map discrepancy
     (fst (collect_rows example_world [(''demo'', ''/repo''), (''none'', ''/missing'')]))
     = [''No'', ''Yes''] \<and>
   map (\<lambda>r. diff_myers r \<noteq> diff_histogram r)
     (fst (collect_rows example_world [(''demo'', ''/repo''), (''none'', ''/missing'')]))
     = [False, True]"
  using discrepancy_consistency [of example_world "[(''demo'', ''/repo''), (''none'', ''/missing'')]"]
  by (simp add: example_rows)

text \<open>
  C3.  A modified file with neither path leaves the rows as they are; so does a commit
  without a parent; so does a file for which the Myers or the Histogram call of
  \<open>get_diff\<close> returns \<open>None\<close>.
\<close>

theorem skip_correctness:
  "(old_path f = None \<and> new_path f = None \<longrightarrow>
      process_file w repo_name c parent f rows = (rows, None)) \<and>
   (parents c = [] \<longrightarrow> process_commit w repo_name c rows = (rows, None)) \<and>
   (fst (get_diff w (project_path c) parent (hash c) (effective_path f) ''myers'') = Inr None \<or>
    fst (get_diff w (project_path c) parent (hash c) (effective_path f) ''histogram'') = Inr None
    \<longrightarrow> fst (process_file w repo_name c parent f rows) = rows)"
  by (auto simp: process_file_def process_commit_def first_parent_def effective_path_def Let_def
      split: sum.splits)

theorem skip_correctness_witness:
  "process_file example_world ''demo'' example_commit (Some ''P'') (example_files ! 2) [] = ([], None) \<and>
   process_commit example_world ''demo'' example_root [] = ([], None) \<and>
   fst (get_diff example_world (project_path example_commit) (Some ''P'') (hash example_commit)
          (effective_path (example_files ! 3)) ''histogram'') = Inr None \<and>
   fst (process_file example_world ''demo'' example_commit (Some ''P'') (example_files ! 3) []) = [] \<and>
   length (fst (process_file example_world ''demo'' example_commit (Some ''P'') (example_files ! 0) [])) = 1"
proof -
  have a: "old_path (example_files ! 2) = None \<and> new_path (example_files ! 2) = None"
    by code_simp
  have b: "parents example_root = []" by code_simp
  have c: "fst (get_diff example_world (project_path example_commit) (Some ''P'') (hash example_commit)
          (effective_path (example_files ! 3)) ''histogram'') = Inr None" by code_simp
  have d: "length (fst (process_file example_world ''demo'' example_commit (Some ''P'') (example_files ! 0) [])) = 1"
    by code_simp
  show ?thesis
    using a b c d
      skip_correctness [where f = "example_files ! 2" and w = example_world
        and repo_name = "''demo''" and c = example_commit and parent = "Some ''P''" and rows = "[]"]
      skip_correctness [where f = "example_files ! 3" and w = example_world
        and repo_name = "''demo''" and c = example_root and parent = "Some ''P''" and rows = "[]"]
      skip_correctness [where f = "example_files ! 3" and w = example_world
        and repo_name = "''demo''" and c = example_commit and parent = "Some ''P''" and rows = "[]"]
    by blast
qed

lemma appends_truncated_refl: "appends_truncated c rows rows"
  by (simp add: appends_truncated_def)

lemma appends_truncated_trans:
  "appends_truncated c rows rows' \<Longrightarrow> appends_truncated c rows' rows'' \<Longrightarrow>
   appends_truncated c rows rows''"
  unfolding appends_truncated_def by (metis Un_iff append.assoc set_append)

lemma process_file_appends:
  "appends_truncated c rows (fst (process_file w repo_name c parent f rows))"
  by (auto simp: process_file_def Let_def appends_truncated_def split: sum.splits)

lemma for_each_process_file_appends:
  "appends_truncated c rows (fst (for_each (process_file w repo_name c parent) fs rows))"
proof (induction fs arbitrary: rows)
  case Nil
  then show ?case by (simp add: appends_truncated_refl)
next
  case (Cons f fs)
  have step: "appends_truncated c rows (fst (process_file w repo_name c parent f rows))"
    by (rule process_file_appends)
  show ?case
  proof (cases "process_file w repo_name c parent f rows")
    case (Pair rows' r)
    with step have 1: "appends_truncated c rows rows'" by simp
    show ?thesis
    proof (cases r)
      case None
      have "appends_truncated c rows' (fst (for_each (process_file w repo_name c parent) fs rows'))"
        by (rule Cons.IH)
      with 1 have "appends_truncated c rows (fst (for_each (process_file w repo_name c parent) fs rows'))"
        by (rule appends_truncated_trans)
      with Pair None show ?thesis by simp
    next
      case (Some e)
      with Pair 1 show ?thesis by simp
    qed
  qed
qed

text \<open>
  C8.  Every row that a commit adds carries the first 100 characters of the commit's
  message followed by \<open>...\<close> when the message is longer than 100 characters, and the
  whole message otherwise.
\<close>

theorem commit_message_truncation:
  "\<exists>new. fst (process_commit w repo_name c rows) = rows @ new \<and>
     (\<forall>r \<in> set new.
        (length (msg c) > 100 \<longrightarrow> commit_message r = take 100 (msg c) @ ''...'') \<and>
        (length (msg c) \<le> 100 \<longrightarrow> commit_message r = msg c))"
proof -
  have "appends_truncated c rows (fst (process_commit w repo_name c rows))"
    by (simp add: process_commit_def Let_def appends_truncated_refl for_each_process_file_appends)
  then obtain new where n: "fst (process_commit w repo_name c rows) = rows @ new"
    "\<forall>r \<in> set new. commit_message r = truncated_msg c"
    unfolding appends_truncated_def by blast
  from n(2) have "\<forall>r \<in> set new.
        (length (msg c) > 100 \<longrightarrow> commit_message r = take 100 (msg c) @ ''...'') \<and>
        (length (msg c) \<le> 100 \<longrightarrow> commit_message r = msg c)"
    by (simp add: truncated_msg_def)
  with n(1) show ?thesis by blast
qed

theorem commit_message_truncation_witness:
  "length (msg example_commit) = 150 \<and>
   map commit_message (fst (process_commit example_world ''demo'' example_commit [])) =
     [take 100 (msg example_commit) @ ''...'', take 100 (msg example_commit) @ ''...''] \<and>
   length (msg example_short) = 8 \<and>
   map commit_message (fst (process_commit example_world ''demo'' example_short [])) =
     [msg example_short]"
proof -
  have l1: "length (msg example_commit) = 150" by code_simp
  have l2: "length (msg example_short) = 8" by code_simp
  have n1: "length (fst (process_commit example_world ''demo'' example_commit [])) = 2" by code_simp
  have n2: "length (fst (process_commit example_world ''demo'' example_short [])) = 1" by code_simp
  obtain new1 where 1: "fst (process_commit example_world ''demo'' example_commit []) = [] @ new1"
    "\<forall>r \<in> set new1.
        (length (msg example_commit) > 100 \<longrightarrow>
           commit_message r = take 100 (msg example_commit) @ ''...'') \<and>
        (length (msg example_commit) \<le> 100 \<longrightarrow> commit_message r = msg example_commit)"
    using commit_message_truncation [of example_world "''demo''" example_commit "[]"] by blast
  obtain new2 where 2: "fst (process_commit example_world ''demo'' example_short []) = [] @ new2"
    "\<forall>r \<in> set new2.
        (length (msg example_short) > 100 \<longrightarrow>
           commit_message r = take 100 (msg example_short) @ ''...'') \<and>
        (length (msg example_short) \<le> 100 \<longrightarrow> commit_message r = msg example_short)"
    using commit_message_truncation [of example_world "''demo''" example_short "[]"] by blast
  from 1 n1 obtain a b where ab: "new1 = [a, b]"
    by (cases new1; cases "tl new1"; cases "tl (tl new1)") auto
  from 2 n2 obtain d where d: "new2 = [d]"
    by (cases new2; cases "tl new2") auto
  show ?thesis using 1 2 ab d l1 l2 by simp
qed

section \<open>Reporting\<close>

lemma set_unique: "set (unique xs) = set xs"
  by (induction xs rule: unique.induct) auto

lemma set_group_keys: "set (group_keys column df) = column ` set df"
  by (simp add: group_keys_def)

lemma fold_file_type_step:
  "fold (file_type_step df) fts acc = acc @ concat (map (\<lambda>ft. file_type_step df ft []) fts)"
proof (induction fts arbitrary: acc)
  case Nil
  then show ?case by simp
next
  case (Cons ft fts)
  have "file_type_step df ft acc = acc @ file_type_step df ft []"
    by (simp add: file_type_step_def Let_def)
  then show ?case using Cons.IH by simp
qed

lemma file_type_stats_member:
  "e \<in> set (file_type_stats df) \<longleftrightarrow>
     (\<exists>ft \<in> set (map file_type df). 10 \<le> length (filter (\<lambda>r. file_type r = ft) df) \<and>
        e = \<lparr>label = upper ft,
             rate = of_nat (count_discrepancy ''Yes'' (filter (\<lambda>r. file_type r = ft) df)) /
                    of_nat (length (filter (\<lambda>r. file_type r = ft) df)) * 100,
             total = length (filter (\<lambda>r. file_type r = ft) df),
             disagreements = count_discrepancy ''Yes'' (filter (\<lambda>r. file_type r = ft) df)\<rparr>)"
  unfolding file_type_stats_def fold_file_type_step
  by (auto simp: file_type_step_def Let_def set_unique)

lemma count_pos_member:
  "0 < length (filter (\<lambda>r. file_type r = ft) df) \<Longrightarrow> ft \<in> set (map file_type df)"
  by (induction df) (auto split: if_splits)

lemma repo_stats_nonempty: "df \<noteq> [] \<Longrightarrow> repo_stats df \<noteq> []"
proof -
  assume "df \<noteq> []"
  then have "set (group_keys repository df) \<noteq> {}" by (simp add: set_group_keys)
  then show ?thesis by (auto simp: repo_stats_def)
qed

lemma idxmax_nonempty: "xs \<noteq> [] \<Longrightarrow> \<exists>k. idxmax xs = Inr k"
  by (cases xs) auto

lemma summary_of_nonempty:
  assumes "df \<noteq> []"
  shows "snd (summary_of df) = None"
    and "file_type_line df ` set (group_keys file_type df) \<subseteq> set (fst (summary_of df))"
proof -
  have q: "py_div (count_discrepancy ''Yes'' df) (length df) =
      Inr (of_nat (count_discrepancy ''Yes'' df) / of_nat (length df))"
    using assms by (simp add: py_div_def)
  obtain k where k: "idxmax (map (\<lambda>(repo, discrepancies, total_n, rate). (repo, rate))
                           (repo_stats df)) = Inr k"
    using idxmax_nonempty [of "map (\<lambda>(repo, discrepancies, total_n, rate). (repo, rate))
                           (repo_stats df)"] repo_stats_nonempty [OF assms] by auto
  show "snd (summary_of df) = None"
    by (simp add: summary_of_def Let_def q k)
  show "file_type_line df ` set (group_keys file_type df) \<subseteq> set (fst (summary_of df))"
    by (auto simp add: summary_of_def Let_def q k)
qed

text \<open>
  C9.  The statistics behind the chart's file-type panel hold an entry for a category
  (its upper-cased name, with its record count) exactly when the category has at least
  10 records.  The console summary of \<open>display_summary\<close> ends without an exception
  and prints, for every category of the dataset, its discrepancies, its record count and
  its rate, whatever the count.
\<close>

theorem chart_threshold_console_all:
  "((\<exists>e \<in> set (file_type_stats df).
       label e = upper ft \<and> total e = length (filter (\<lambda>r. file_type r = ft) df))
    \<longleftrightarrow> 10 \<le> length (filter (\<lambda>r. file_type r = ft) df)) \<and>
   (\<forall>ft \<in> set (map file_type df).
      snd (display_summary (Table df)) = None \<and>
      File_type_line (title ft)
        (length (filter (\<lambda>r. file_type r = ft) (filter (\<lambda>r. discrepancy r = ''Yes'') df)))
        (length (filter (\<lambda>r. file_type r = ft) df))
        (of_nat (length (filter (\<lambda>r. file_type r = ft) (filter (\<lambda>r. discrepancy r = ''Yes'') df))) /
         of_nat (length (filter (\<lambda>r. file_type r = ft) df)) * 100)
      \<in> set (fst (display_summary (Table df))))"
proof (intro conjI ballI)
  let ?n = "\<lambda>ft. length (filter (\<lambda>r. file_type r = ft) df)"
  show "(\<exists>e \<in> set (file_type_stats df). label e = upper ft \<and> total e = ?n ft) \<longleftrightarrow> 10 \<le> ?n ft"
  proof
    assume "\<exists>e \<in> set (file_type_stats df). label e = upper ft \<and> total e = ?n ft"
    then obtain e where e: "e \<in> set (file_type_stats df)" "total e = ?n ft" by blast
    from e(1) obtain ft' where "10 \<le> ?n ft'" "total e = ?n ft'"
      unfolding file_type_stats_member by auto
    with e(2) show "10 \<le> ?n ft" by simp
  next
    assume ge: "10 \<le> ?n ft"
    then have "0 < ?n ft" by linarith
    then have "ft \<in> set (map file_type df)" by (rule count_pos_member)
    with ge have
      "\<lparr>label = upper ft,
        rate = of_nat (count_discrepancy ''Yes'' (filter (\<lambda>r. file_type r = ft) df)) /
               of_nat (?n ft) * 100,
        total = ?n ft,
        disagreements = count_discrepancy ''Yes'' (filter (\<lambda>r. file_type r = ft) df)\<rparr>
       \<in> set (file_type_stats df)"
      unfolding file_type_stats_member by blast
    then show "\<exists>e \<in> set (file_type_stats df). label e = upper ft \<and> total e = ?n ft"
      by force
  qed
next
  fix ft assume ft: "ft \<in> set (map file_type df)"
  then have ne: "df \<noteq> []" by auto
  show "snd (display_summary (Table df)) = None"
    using summary_of_nonempty(1) [OF ne] by (simp add: display_summary_def)
next
  fix ft assume ft: "ft \<in> set (map file_type df)"
  then have ne: "df \<noteq> []" by auto
  from ft have pos: "0 < length (filter (\<lambda>r. file_type r = ft) df)"
    by (auto simp: filter_empty_conv)
  from ft have "ft \<in> set (group_keys file_type df)" by (simp add: set_group_keys)
  then have "file_type_line df ft \<in> set (fst (summary_of df))"
    using summary_of_nonempty(2) [OF ne] by blast
  then show "File_type_line (title ft)
        (length (filter (\<lambda>r. file_type r = ft) (filter (\<lambda>r. discrepancy r = ''Yes'') df)))
        (length (filter (\<lambda>r. file_type r = ft) df))
        (of_nat (length (filter (\<lambda>r. file_type r = ft) (filter (\<lambda>r. discrepancy r = ''Yes'') df))) /
         of_nat (length (filter (\<lambda>r. file_type r = ft) df)) * 100)
      \<in> set (fst (display_summary (Table df)))"
    using pos by (simp add: file_type_line_def display_summary_def Let_def)
qed

theorem chart_threshold_console_all_witness:
  "file_type_stats example_dataset =
     [\<lparr>label = ''SOURCE'', rate = 0, total = 12, disagreements = 0\<rparr>] \<and>
   snd (display_summary (Table example_dataset)) = None \<and>
   File_type_line ''Source'' 0 12 0 \<in> set (fst (display_summary (Table example_dataset))) \<and>
   File_type_line ''Documentation'' 1 1 100 \<in> set (fst (display_summary (Table example_dataset)))"
proof -
  have s: "file_type_stats example_dataset =
     [\<lparr>label = ''SOURCE'', rate = 0, total = 12, disagreements = 0\<rparr>]"
    by code_simp
  have m: "''Source'' \<in> set (map file_type example_dataset)"
    "''Documentation'' \<in> set (map file_type example_dataset)"
    by code_simp+
  have n: "length (filter (\<lambda>r. file_type r = ''Source'') example_dataset) = 12"
    "length (filter (\<lambda>r. file_type r = ''Documentation'') example_dataset) = 1"
    "length (filter (\<lambda>r. file_type r = ''Source'')
       (filter (\<lambda>r. discrepancy r = ''Yes'') example_dataset)) = 0"
    "length (filter (\<lambda>r. file_type r = ''Documentation'')
       (filter (\<lambda>r. discrepancy r = ''Yes'') example_dataset)) = 1"
    by code_simp+
  have t: "title ''Source'' = ''Source''" "title ''Documentation'' = ''Documentation''"
    by code_simp+
  have every: "\<And>ft. ft \<in> set (map file_type example_dataset) \<Longrightarrow>
      snd (display_summary (Table example_dataset)) = None \<and>
      File_type_line (title ft)
        (length (filter (\<lambda>r. file_type r = ft)
           (filter (\<lambda>r. discrepancy r = ''Yes'') example_dataset)))
        (length (filter (\<lambda>r. file_type r = ft) example_dataset))
        (of_nat (length (filter (\<lambda>r. file_type r = ft)
           (filter (\<lambda>r. discrepancy r = ''Yes'') example_dataset))) /
         of_nat (length (filter (\<lambda>r. file_type r = ft) example_dataset)) * 100)
      \<in> set (fst (display_summary (Table example_dataset)))"
    using chart_threshold_console_all [of example_dataset "''Source''"] by blast
  have 1: "snd (display_summary (Table example_dataset)) = None \<and>
      File_type_line ''Source'' 0 12 0 \<in> set (fst (display_summary (Table example_dataset)))"
    using every [OF m(1)] by (simp only: n t) simp
  have 2: "File_type_line ''Documentation'' 1 1 100
      \<in> set (fst (display_summary (Table example_dataset)))"
    using every [OF m(2)] by (simp only: n t) simp
  show ?thesis using s 1 2 by simp
qed

text \<open>
  C2.  On a dataset without rows the overall discrepancy rate of \<open>display_summary\<close>
  divides by zero: the function prints its banner and ends with
  \<open>ZeroDivisionError\<close>.  The report of \<open>main\<close> ends with \<open>KeyError\<close> before it
  reaches its rate.  The chart statistics guard the same divisions and give 0.
\<close>

theorem zero_denominator_rates:
  "summary_of [] =
     ([Text (replicate 60 (CHR ''='')), Text ''DIFF ALGORITHM ANALYSIS SUMMARY'',
       Text (replicate 60 (CHR ''=''))], Some ZeroDivisionError) \<and>
   snd (main_report []) = Some KeyError \<and>
   overall_percentages [] = (0, 0) \<and> overall_rates [] = (0, 0) \<and>
   repo_data [] = [] \<and> file_type_stats [] = []"
  by (simp add: summary_of_def main_report_def overall_percentages_def overall_rates_def
      py_div_def count_discrepancy_def repo_data_def file_type_stats_def Let_def)

text \<open>
  C6.  \<open>display_summary\<close> prints a message and returns when \<open>dataset.csv\<close> is
  absent.  On a file without columns it ends with \<open>EmptyDataError\<close> and prints
  nothing; on a file with a header and no rows it ends with \<open>ZeroDivisionError\<close>.
\<close>

theorem display_summary_missing_or_empty:
  "display_summary Absent =
     ([Text ''Error: dataset.csv not found'', Text ''Please run diff_analysis.py first''], None) \<and>
   display_summary Blank = ([], Some EmptyDataError) \<and>
   snd (display_summary (Table [])) = Some ZeroDivisionError"
  by (simp add: display_summary_def summary_of_def py_div_def count_discrepancy_def Let_def)

end
